theory Spec2Isabelle
  imports Complex_Main
begin

section \<open>SQL values and operators\<close>

text \<open>
  The derived ("npy") table of the trade ledger is declared by the statement
  \<^verbatim>\<open>CREATE TABLE IF NOT EXISTS npy_data\<close>. Its derived metrics are generated columns, so the
  program text that computes them is the SQL expression of each column. The expressions
  are embedded operator by operator, with SQL's treatment of NULL written out:

  \<^item> an INTEGER value is \<open>int option\<close>, a REAL value is \<open>rat option\<close> and a truth value
    is \<open>bool option\<close>; \<open>None\<close> is NULL;
  \<^item> arithmetic and comparison with a NULL operand give NULL;
  \<^item> AND is three-valued (FALSE AND NULL is FALSE, TRUE AND NULL is NULL);
  \<^item> a CASE branch is taken only when its condition is TRUE, a NULL condition falls
    through to ELSE;
  \<^item> \<open>/\<close> between two integers truncates toward zero, and division by zero is NULL;
  \<^item> CAST (x AS INTEGER) of a REAL truncates toward zero.

  Integers are unbounded here and REAL values are exact rationals. Prices of the game are
  below \<open>2\<^sup>3\<^sup>1\<close>, so the 64-bit integers of the engine do not overflow in the
  expressions below, and the double-precision product \<open>p * 0.01\<close> has the integer part of
  the exact product.
\<close>

type_synonym sql_int = "int option"
type_synonym sql_real = "rat option"
type_synonym sql_bool = "bool option"

definition sql_add :: "sql_int \<Rightarrow> sql_int \<Rightarrow> sql_int" where
  "sql_add a b = (case a of None \<Rightarrow> None | Some x \<Rightarrow> (case b of None \<Rightarrow> None | Some y \<Rightarrow> Some (x + y)))"

definition sql_sub :: "sql_int \<Rightarrow> sql_int \<Rightarrow> sql_int" where
  "sql_sub a b = (case a of None \<Rightarrow> None | Some x \<Rightarrow> (case b of None \<Rightarrow> None | Some y \<Rightarrow> Some (x - y)))"

definition sql_mul :: "sql_int \<Rightarrow> sql_int \<Rightarrow> sql_int" where
  "sql_mul a b = (case a of None \<Rightarrow> None | Some x \<Rightarrow> (case b of None \<Rightarrow> None | Some y \<Rightarrow> Some (x * y)))"

text \<open>Integer division as SQLite performs it: the quotient is truncated toward zero.\<close>

definition trunc_div :: "int \<Rightarrow> int \<Rightarrow> int" where
  "trunc_div x y = (if (x < 0) = (y < 0) then \<bar>x\<bar> div \<bar>y\<bar> else - (\<bar>x\<bar> div \<bar>y\<bar>))"

definition sql_idiv :: "sql_int \<Rightarrow> sql_int \<Rightarrow> sql_int" where
  "sql_idiv a b =
     (case a of None \<Rightarrow> None
      | Some x \<Rightarrow> (case b of None \<Rightarrow> None
                   | Some y \<Rightarrow> if y = 0 then None else Some (trunc_div x y)))"

definition cast_real :: "sql_int \<Rightarrow> sql_real" where
  "cast_real a = (case a of None \<Rightarrow> None | Some x \<Rightarrow> Some (of_int x))"

definition trunc_rat :: "rat \<Rightarrow> int" where
  "trunc_rat q = (if 0 \<le> q then \<lfloor>q\<rfloor> else \<lceil>q\<rceil>)"

definition cast_integer :: "sql_real \<Rightarrow> sql_int" where
  "cast_integer a = (case a of None \<Rightarrow> None | Some q \<Rightarrow> Some (trunc_rat q))"

text \<open>\<open>i * r\<close> with an INTEGER and a REAL operand: the integer is promoted.\<close>

definition sql_mul_real :: "sql_int \<Rightarrow> sql_real \<Rightarrow> sql_real" where
  "sql_mul_real a b =
     (case a of None \<Rightarrow> None | Some x \<Rightarrow> (case b of None \<Rightarrow> None | Some q \<Rightarrow> Some (of_int x * q)))"

text \<open>\<open>r / i\<close> with a REAL and an INTEGER operand: real division, NULL on a zero divisor.\<close>

definition sql_div_real :: "sql_real \<Rightarrow> sql_int \<Rightarrow> sql_real" where
  "sql_div_real a b =
     (case a of None \<Rightarrow> None
      | Some q \<Rightarrow> (case b of None \<Rightarrow> None
                   | Some y \<Rightarrow> if y = 0 then None else Some (q / of_int y)))"

definition sql_gt :: "sql_int \<Rightarrow> sql_int \<Rightarrow> sql_bool" where
  "sql_gt a b = (case a of None \<Rightarrow> None | Some x \<Rightarrow> (case b of None \<Rightarrow> None | Some y \<Rightarrow> Some (y < x)))"

definition sql_lt :: "sql_int \<Rightarrow> sql_int \<Rightarrow> sql_bool" where
  "sql_lt a b = (case a of None \<Rightarrow> None | Some x \<Rightarrow> (case b of None \<Rightarrow> None | Some y \<Rightarrow> Some (x < y)))"

definition sql_ge :: "sql_int \<Rightarrow> sql_int \<Rightarrow> sql_bool" where
  "sql_ge a b = (case a of None \<Rightarrow> None | Some x \<Rightarrow> (case b of None \<Rightarrow> None | Some y \<Rightarrow> Some (y \<le> x)))"

definition sql_le :: "sql_int \<Rightarrow> sql_int \<Rightarrow> sql_bool" where
  "sql_le a b = (case a of None \<Rightarrow> None | Some x \<Rightarrow> (case b of None \<Rightarrow> None | Some y \<Rightarrow> Some (x \<le> y)))"

definition sql_and :: "sql_bool \<Rightarrow> sql_bool \<Rightarrow> sql_bool" where
  "sql_and p q =
     (if p = Some False \<or> q = Some False then Some False
      else if p = Some True \<and> q = Some True then Some True
      else None)"

text \<open>\<open>x BETWEEN lo AND hi\<close> is \<open>x >= lo AND x <= hi\<close>.\<close>

definition sql_between :: "sql_int \<Rightarrow> int \<Rightarrow> int \<Rightarrow> sql_bool" where
  "sql_between a lo hi = sql_and (sql_ge a (Some lo)) (sql_le a (Some hi))"

text \<open>\<open>CASE WHEN c THEN a ELSE b END\<close>.\<close>

definition sql_case :: "sql_bool \<Rightarrow> 'a \<Rightarrow> 'a \<Rightarrow> 'a" where
  "sql_case c a b = (if c = Some True then a else b)"

text \<open>\<open>COALESCE\<close>: the first argument that is not NULL, NULL when there is none.\<close>

fun coalesce :: "'a option list \<Rightarrow> 'a option" where
  "coalesce [] = None"
| "coalesce (None # xs) = coalesce xs"
| "coalesce (Some x # xs) = Some x"

text \<open>\<open>LEAST\<close> of two integers: the smaller one, NULL when an argument is NULL.\<close>

definition sql_least :: "sql_int \<Rightarrow> sql_int \<Rightarrow> sql_int" where
  "sql_least a b = (case a of None \<Rightarrow> None | Some x \<Rightarrow> (case b of None \<Rightarrow> None | Some y \<Rightarrow> Some (min x y)))"

section \<open>The derived row\<close>

text \<open>
  The stored columns of \<^verbatim>\<open>npy_data\<close>, in the order of the declaration. Every column
  is nullable as a value; the NOT NULL and CHECK constraints of the declaration are
  predicates on the row (see below), enforced when a row is written. The column
  \<^verbatim>\<open>id\<close> is named \<open>id_col\<close>.
\<close>

record npy_data =
  id_col :: sql_int
  item_id :: sql_int
  timestamp :: sql_int
  minute :: sql_int
  hour :: sql_int
  day :: sql_int
  month :: sql_int
  year :: sql_int
  weekday :: sql_int
  hour_timestamp :: sql_int
  day_timestamp :: sql_int
  week_timestamp :: sql_int
  wiki_timestamp :: sql_int
  wiki_price :: sql_int
  wiki_volume :: sql_int
  buy_price :: sql_int
  buy_volume :: sql_int
  sell_price :: sql_int
  sell_volume :: sql_int
  rt_avg_price :: sql_int
  rt_min_price :: sql_int
  rt_max_price :: sql_int
  rt_count :: sql_int
  volume_coefficient :: sql_real

subsection \<open>Generated columns\<close>

definition wiki_total_value :: "npy_data \<Rightarrow> sql_int" where
  "wiki_total_value r = sql_mul (wiki_price r) (wiki_volume r)"

definition wiki_avg_volume :: "npy_data \<Rightarrow> sql_int" where
  "wiki_avg_volume r = sql_idiv (wiki_volume r) (Some 288)"

definition buy_total_value :: "npy_data \<Rightarrow> sql_int" where
  "buy_total_value r = sql_mul (buy_price r) (buy_volume r)"

definition sell_total_value :: "npy_data \<Rightarrow> sql_int" where
  "sell_total_value r = sql_mul (sell_price r) (sell_volume r)"

definition avg5m_price :: "npy_data \<Rightarrow> sql_int" where
  "avg5m_price r =
     sql_case (sql_and (sql_gt (buy_price r) (Some 0)) (sql_gt (sell_price r) (Some 0)))
       (sql_idiv (sql_add (buy_price r) (sell_price r)) (Some 2))
       (coalesce [buy_price r, sell_price r, Some 0])"

definition avg5m_volume :: "npy_data \<Rightarrow> sql_int" where
  "avg5m_volume r = sql_add (buy_volume r) (sell_volume r)"

definition avg5m_total_value :: "npy_data \<Rightarrow> sql_int" where
  "avg5m_total_value r = sql_mul (avg5m_price r) (avg5m_volume r)"

definition avg5m_margin :: "npy_data \<Rightarrow> sql_int" where
  "avg5m_margin r =
     sql_case (sql_and (sql_gt (buy_price r) (Some 0)) (sql_gt (sell_price r) (Some 0)))
       (sql_sub (sql_sub (sell_price r) (buy_price r))
          (cast_integer (sql_mul_real (sell_price r) (Some (1 / 100)))))
       (Some 0)"

definition price_ratio_sell_buy :: "npy_data \<Rightarrow> sql_real" where
  "price_ratio_sell_buy r =
     sql_case (sql_and (sql_gt (buy_price r) (Some 0)) (sql_gt (wiki_price r) (Some 0)))
       (sql_div_real (cast_real (sql_sub (sell_price r) (buy_price r))) (wiki_price r))
       (Some 0)"

definition price_ratio_buy_wiki :: "npy_data \<Rightarrow> sql_real" where
  "price_ratio_buy_wiki r =
     sql_case (sql_gt (wiki_price r) (Some 0))
       (sql_div_real (cast_real (sql_sub (buy_price r) (wiki_price r))) (wiki_price r))
       (Some 0)"

definition price_ratio_sell_wiki :: "npy_data \<Rightarrow> sql_real" where
  "price_ratio_sell_wiki r =
     sql_case (sql_gt (wiki_price r) (Some 0))
       (sql_div_real (cast_real (sql_sub (sell_price r) (wiki_price r))) (wiki_price r))
       (Some 0)"

definition rt_margin :: "npy_data \<Rightarrow> sql_int" where
  "rt_margin r =
     sql_case (sql_gt (rt_count r) (Some 0))
       (sql_sub (sql_sub (rt_max_price r) (rt_min_price r))
          (cast_integer (sql_mul_real (rt_avg_price r) (Some (1 / 100)))))
       (Some 0)"

text \<open>
  The expression of the \<^verbatim>\<open>tax\<close> column with its price argument abstracted:
  \<^verbatim>\<open>LEAST(5000000, CAST(p * 0.01 as INTEGER))\<close>.
\<close>

definition tax_expr :: "sql_int \<Rightarrow> sql_int" where
  "tax_expr p = sql_least (Some 5000000) (cast_integer (sql_mul_real p (Some (1 / 100))))"

definition tax :: "npy_data \<Rightarrow> sql_int" where
  "tax r = tax_expr (coalesce [sell_price r, wiki_price r, Some 0])"

text \<open>A row with every column NULL, from which example rows are built by update.\<close>

definition null_row :: npy_data where
  "null_row = \<lparr> id_col = None, item_id = None, timestamp = None, minute = None, hour = None,
     day = None, month = None, year = None, weekday = None, hour_timestamp = None,
     day_timestamp = None, week_timestamp = None, wiki_timestamp = None, wiki_price = None,
     wiki_volume = None, buy_price = None, buy_volume = None, sell_price = None,
     sell_volume = None, rt_avg_price = None, rt_min_price = None, rt_max_price = None,
     rt_count = None, volume_coefficient = None \<rparr>"

text \<open>
  Item 2 at the anchor 1700000100 (Tuesday 2023-11-14 22:15:00 UTC), with a snapshot price
  of 100, an interval buy price of 90 and an interval sell price of 110; and the same item
  at the anchor 1600000200 (Sunday 2020-09-13 12:30:00 UTC).
\<close>

definition example_row :: npy_data where
  "example_row = null_row\<lparr> item_id := Some 2, timestamp := Some 1700000100,
     minute := Some 15, hour := Some 22, day := Some 14, month := Some 11, year := Some 2023,
     weekday := Some 1, hour_timestamp := Some 472222, day_timestamp := Some 19675,
     week_timestamp := Some 2810, wiki_price := Some 100, buy_price := Some 90,
     sell_price := Some 110 \<rparr>"

definition old_row :: npy_data where
  "old_row = null_row\<lparr> item_id := Some 2, timestamp := Some 1600000200,
     minute := Some 30, hour := Some 12, day := Some 13, month := Some 9, year := Some 2020,
     weekday := Some 6, hour_timestamp := Some 444444, day_timestamp := Some 18518,
     week_timestamp := Some 2645, wiki_price := Some 95 \<rparr>"

section \<open>Constraints of the table\<close>

text \<open>
  The declaration constrains a row in three ways. Eleven columns are NOT NULL. Five
  calendar columns carry a CHECK with BETWEEN; a CHECK is violated only when its
  expression is FALSE, so a NULL value passes the CHECK and is caught by NOT NULL.
  \<^verbatim>\<open>UNIQUE (item_id, timestamp)\<close> forbids a second row with the same pair, and
  \<^verbatim>\<open>id INTEGER PRIMARY KEY\<close> a second row with the same id; an id left NULL on insert
  is assigned by the engine (one more than the largest id in use, 1 for an empty table).
\<close>

definition key :: "npy_data \<Rightarrow> sql_int \<times> sql_int" where
  "key r = (item_id r, timestamp r)"

datatype constraint_error = NotNullViolation | CheckViolation | UniqueViolation

datatype outcome = Committed | Rejected constraint_error

definition not_null_ok :: "npy_data \<Rightarrow> bool" where
  "not_null_ok r \<longleftrightarrow>
     item_id r \<noteq> None \<and> timestamp r \<noteq> None \<and> minute r \<noteq> None \<and> hour r \<noteq> None \<and>
     day r \<noteq> None \<and> month r \<noteq> None \<and> year r \<noteq> None \<and> weekday r \<noteq> None \<and>
     hour_timestamp r \<noteq> None \<and> day_timestamp r \<noteq> None \<and> week_timestamp r \<noteq> None"

definition check_passes :: "sql_bool \<Rightarrow> bool" where
  "check_passes c \<longleftrightarrow> c \<noteq> Some False"

definition check_ok :: "npy_data \<Rightarrow> bool" where
  "check_ok r \<longleftrightarrow>
     check_passes (sql_between (minute r) 0 59) \<and>
     check_passes (sql_between (hour r) 0 23) \<and>
     check_passes (sql_between (day r) 1 31) \<and>
     check_passes (sql_between (month r) 1 12) \<and>
     check_passes (sql_between (weekday r) 0 6)"

definition unique_ok :: "npy_data \<Rightarrow> npy_data list \<Rightarrow> bool" where
  "unique_ok r tbl \<longleftrightarrow>
     key r \<notin> set (map key tbl) \<and> (id_col r = None \<or> id_col r \<notin> set (map id_col tbl))"

definition next_rowid :: "npy_data list \<Rightarrow> int" where
  "next_rowid tbl = (case List.map_filter id_col tbl of [] \<Rightarrow> 1 | i # js \<Rightarrow> fold max js i + 1)"

definition assign_rowid :: "npy_data list \<Rightarrow> npy_data \<Rightarrow> npy_data" where
  "assign_rowid tbl r =
     (case id_col r of Some i \<Rightarrow> r | None \<Rightarrow> r\<lparr>id_col := Some (next_rowid tbl)\<rparr>)"

section \<open>Writing derived rows\<close>

text \<open>
  The statements with which the updater writes and prunes the derived table are not among
  the sources; only the declaration of the table is. The table is the list of its rows.
  The operations the specification names act on it as the corresponding SQL statements
  act on the declared table, each returning its outcome and the table afterwards.
\<close>

text \<open>
  Modelled from the spec: the statement that inserts a derived row is missing. A plain
  INSERT appends the row when every constraint of the declaration holds; otherwise the
  statement fails and the table is as before.
\<close>

definition insert_row :: "npy_data \<Rightarrow> npy_data list \<Rightarrow> outcome \<times> npy_data list" where
  "insert_row r tbl =
     (if \<not> not_null_ok r then (Rejected NotNullViolation, tbl)
      else if \<not> check_ok r then (Rejected CheckViolation, tbl)
      else if \<not> unique_ok r tbl then (Rejected UniqueViolation, tbl)
      else (Committed, tbl @ [assign_rowid tbl r]))"

text \<open>
  Modelled from the spec: the statement that commits a synthesized row is missing. It is
  the specification's upsert ("created/overwritten by the Row Synthesizer", "atomically
  upsert the computed DerivedRows"): a row whose \<open>(item_id, timestamp)\<close> is already
  present overwrites the stored columns of that row, which keeps its id; otherwise the row
  is inserted.
\<close>

definition upsert_row :: "npy_data \<Rightarrow> npy_data list \<Rightarrow> outcome \<times> npy_data list" where
  "upsert_row r tbl =
     (if \<not> not_null_ok r then (Rejected NotNullViolation, tbl)
      else if \<not> check_ok r then (Rejected CheckViolation, tbl)
      else if key r \<in> set (map key tbl)
        then (Committed, map (\<lambda>x. if key x = key r then r\<lparr>id_col := id_col x\<rparr> else x) tbl)
      else insert_row r tbl)"

text \<open>
  Modelled from the spec: the Retention Manager's deletion is missing. It "deletes
  DerivedRows with anchor < now - R":
  \<^verbatim>\<open>DELETE FROM npy_data WHERE timestamp < now - R\<close>.
\<close>

definition retention_delete :: "int \<Rightarrow> int \<Rightarrow> npy_data list \<Rightarrow> npy_data list" where
  "retention_delete R now tbl =
     filter (\<lambda>r. sql_lt (timestamp r) (Some (now - R)) \<noteq> Some True) tbl"

text \<open>
  Modelled from the spec: the states of the derived table are the empty table and whatever
  the three operations above make of it.
\<close>

inductive reachable :: "npy_data list \<Rightarrow> bool" where
  reachable_empty: "reachable []"
| reachable_insert: "reachable tbl \<Longrightarrow> reachable (snd (insert_row r tbl))"
| reachable_upsert: "reachable tbl \<Longrightarrow> reachable (snd (upsert_row r tbl))"
| reachable_retention: "reachable tbl \<Longrightarrow> reachable (retention_delete R now tbl)"

section \<open>The update cycle\<close>

text \<open>
  Modelled from the spec: the configuration structure is missing. It supplies the bucket
  width W and the retention window R, in seconds; the reference values are 300 seconds
  and 456 days.
\<close>

record config =
  bucket_width :: int
  retention_window :: int

definition reference_config :: config where
  "reference_config = \<lparr> bucket_width = 300, retention_window = 456 * 86400 \<rparr>"

text \<open>
  Modelled from the spec: the per-item state of the Update Orchestrator is missing. It is
  the committed derived rows and the checkpoint, the anchor up to which they are complete.
\<close>

record store =
  derived :: "npy_data list"
  checkpoint :: int

text \<open>
  Modelled from the spec: the Committing step is missing. The synthesized rows are
  upserted in order; when one of them is rejected the commit fails as a whole and the
  table is as before.
\<close>

fun commit_rows :: "npy_data list \<Rightarrow> npy_data list \<Rightarrow> outcome \<times> npy_data list" where
  "commit_rows [] tbl = (Committed, tbl)"
| "commit_rows (r # rs) tbl =
     (case upsert_row r tbl of
        (Committed, tbl') \<Rightarrow> commit_rows rs tbl'
      | (Rejected e, _) \<Rightarrow> (Rejected e, tbl))"

text \<open>
  Modelled from the spec: the Update Orchestrator's cycle is missing. One cycle at time
  \<open>now\<close> commits the rows synthesized for its anchor range and advances the checkpoint to
  the anchor of \<open>now\<close> in one unit; after a successful commit the Retention Manager
  deletes the derived rows with anchor < now - R. A failed cycle leaves the store as it
  was.
\<close>

definition update_cycle :: "config \<Rightarrow> int \<Rightarrow> npy_data list \<Rightarrow> store \<Rightarrow> outcome \<times> store" where
  "update_cycle cfg now new st =
     (case commit_rows new (derived st) of
        (Rejected e, _) \<Rightarrow> (Rejected e, st)
      | (Committed, tbl) \<Rightarrow>
          (Committed, \<lparr> derived = retention_delete (retention_window cfg) now tbl,
                        checkpoint = now - now mod bucket_width cfg \<rparr>))"

section \<open>The formulas of the specification\<close>

text \<open>
  The derived metrics as the specification words them, for comparison with the generated
  columns. A stat is present when it is not NULL.
\<close>

text \<open>Tax(price) = min(tax_cap, floor(price * tax_rate)), with cap 5,000,000 and rate 0.01.\<close>

definition spec_tax :: "int \<Rightarrow> int" where
  "spec_tax p = min 5000000 \<lfloor>of_int p * (1 / 100 :: rat)\<rfloor>"

text \<open>
  Combined interval price: the average of the two floored when both are present, else
  whichever is present, else zero.
\<close>

definition spec_combined_price :: "sql_int \<Rightarrow> sql_int \<Rightarrow> int" where
  "spec_combined_price buy sell =
     (case buy of
        Some b \<Rightarrow> (case sell of Some s \<Rightarrow> \<lfloor>(of_int b + of_int s) / (2 :: rat)\<rfloor> | None \<Rightarrow> b)
      | None \<Rightarrow> (case sell of Some s \<Rightarrow> s | None \<Rightarrow> 0))"

text \<open>Combined interval volume: the sum of the two volumes, an absent one counting as zero.\<close>

definition spec_combined_volume :: "sql_int \<Rightarrow> sql_int \<Rightarrow> int" where
  "spec_combined_volume bv sv =
     (case bv of Some x \<Rightarrow> x | None \<Rightarrow> 0) + (case sv of Some y \<Rightarrow> y | None \<Rightarrow> 0)"

text \<open>Trade margin: sell - buy - tax(sell) when both prices are present, else zero.\<close>

definition spec_trade_margin :: "sql_int \<Rightarrow> sql_int \<Rightarrow> int" where
  "spec_trade_margin buy sell =
     (case buy of
        Some b \<Rightarrow> (case sell of Some s \<Rightarrow> s - b - spec_tax s | None \<Rightarrow> 0)
      | None \<Rightarrow> 0)"

text \<open>
  A relative gap \<open>(x - y) / reference\<close>: defined when both operands and the reference are
  present and the reference is not zero, else zero.
\<close>

definition spec_gap :: "sql_int \<Rightarrow> sql_int \<Rightarrow> sql_int \<Rightarrow> rat" where
  "spec_gap x y ref =
     (case x of None \<Rightarrow> 0
      | Some a \<Rightarrow> (case y of None \<Rightarrow> 0
                   | Some b \<Rightarrow> (case ref of None \<Rightarrow> 0
                                | Some w \<Rightarrow> if w = 0 then 0 else (of_int a - of_int b) / of_int w)))"

text \<open>
  Realtime spread margin: tick_max - tick_min - tax(tick_average) when the tick count is
  greater than zero, else zero.
\<close>

definition spec_rt_margin :: "sql_int \<Rightarrow> int \<Rightarrow> int \<Rightarrow> int \<Rightarrow> int" where
  "spec_rt_margin n mx mn av =
     (case n of None \<Rightarrow> 0 | Some c \<Rightarrow> if 0 < c then mx - mn - spec_tax av else 0)"

text \<open>The calendar ranges: a value that is present and lies between the bounds.\<close>

definition in_range :: "sql_int \<Rightarrow> int \<Rightarrow> int \<Rightarrow> bool" where
  "in_range v lo hi = (case v of None \<Rightarrow> False | Some x \<Rightarrow> lo \<le> x \<and> x \<le> hi)"

definition calendar_in_range :: "npy_data \<Rightarrow> bool" where
  "calendar_in_range r \<longleftrightarrow>
     in_range (minute r) 0 59 \<and> in_range (hour r) 0 23 \<and> in_range (day r) 1 31 \<and>
     in_range (month r) 1 12 \<and> in_range (weekday r) 0 6"


section \<open>Facts about the operators\<close>

lemmas sql_ops = sql_case_def sql_and_def sql_gt_def sql_idiv_def sql_add_def sql_sub_def
  sql_mul_def trunc_div_def cast_real_def cast_integer_def sql_mul_real_def sql_div_real_def
  sql_least_def

text \<open>On a price that is not negative, the truncating cast of a hundredth is the floor.\<close>

lemma trunc_rat_nonneg: "0 \<le> p \<Longrightarrow> trunc_rat (of_int p / 100) = p div 100"
proof -
  assume "0 \<le> p"
  then have "(0::rat) \<le> of_int p / 100" by simp
  moreover have "\<lfloor>(of_int p :: rat) / 100\<rfloor> = p div 100"
    using floor_divide_of_int_eq [of p 100, where ?'a = rat] by simp
  ultimately show ?thesis by (simp add: trunc_rat_def)
qed

lemma spec_tax_div: "spec_tax p = min 5000000 (p div 100)"
  using floor_divide_of_int_eq [of p 100, where ?'a = rat] by (simp add: spec_tax_def)

lemma tax_expr_nonneg: "0 \<le> p \<Longrightarrow> tax_expr (Some p) = Some (spec_tax p)"
  by (simp add: tax_expr_def sql_least_def cast_integer_def sql_mul_real_def trunc_rat_nonneg
      spec_tax_div)

lemma uncapped_below: "0 \<le> p \<Longrightarrow> p < 500000100 \<Longrightarrow> p div 100 = spec_tax p"
  by (simp add: spec_tax_div)

section \<open>Facts about the table operations\<close>

lemma key_id_col: "key (r\<lparr>id_col := i\<rparr>) = key r"
  by (simp add: key_def)

lemma key_assign_rowid: "key (assign_rowid tbl r) = key r"
  by (simp add: assign_rowid_def key_id_col split: option.splits)

lemma map_key_overwrite:
  "map key (map (\<lambda>x. if key x = key r then r\<lparr>id_col := id_col x\<rparr> else x) tbl) = map key tbl"
  by (induction tbl) (simp_all add: key_id_col)

lemma insert_row_distinct:
  "distinct (map key tbl) \<Longrightarrow> distinct (map key (snd (insert_row r tbl)))"
  by (simp add: insert_row_def unique_ok_def key_assign_rowid)

lemma upsert_row_distinct:
  "distinct (map key tbl) \<Longrightarrow> distinct (map key (snd (upsert_row r tbl)))"
  using insert_row_distinct [of tbl r]
  by (simp add: upsert_row_def map_key_overwrite del: map_map)

lemma retention_delete_distinct:
  "distinct (map key tbl) \<Longrightarrow> distinct (map key (retention_delete R now tbl))"
  by (simp add: retention_delete_def distinct_map_filter)

lemma reachable_distinct: "reachable tbl \<Longrightarrow> distinct (map key tbl)"
  by (induction rule: reachable.induct)
     (simp_all add: insert_row_distinct upsert_row_distinct retention_delete_distinct)

lemma commit_rows_distinct:
  "distinct (map key tbl) \<Longrightarrow> distinct (map key (snd (commit_rows rs tbl)))"
proof (induction rs arbitrary: tbl)
  case Nil
  then show ?case by simp
next
  case (Cons r rs)
  show ?case
  proof (cases "upsert_row r tbl")
    case (Pair out tbl')
    with Cons.prems upsert_row_distinct [of tbl r] have d: "distinct (map key tbl')" by simp
    show ?thesis
    proof (cases out)
      case Committed
      with Pair Cons.IH [OF d] show ?thesis by simp
    next
      case (Rejected e)
      with Pair Cons.prems show ?thesis by simp
    qed
  qed
qed

lemma update_cycle_distinct:
  "distinct (map key (derived st)) \<Longrightarrow>
     distinct (map key (derived (snd (update_cycle cfg now new st))))"
  using commit_rows_distinct [of "derived st" new]
  by (auto simp add: update_cycle_def retention_delete_distinct split: prod.splits outcome.splits)

lemma upsert_row_overwrites:
  assumes "key r \<in> set (map key tbl)" and "upsert_row r tbl = (Committed, tbl')"
  shows "map key tbl' = map key tbl"
    and "\<forall>y\<in>set tbl'. key y = key r \<longrightarrow> (\<exists>x\<in>set tbl. key x = key r \<and> y = r\<lparr>id_col := id_col x\<rparr>)"
proof -
  from assms have eq: "tbl' = map (\<lambda>x. if key x = key r then r\<lparr>id_col := id_col x\<rparr> else x) tbl"
    by (simp add: upsert_row_def split: if_splits)
  show "map key tbl' = map key tbl"
    unfolding eq by (rule map_key_overwrite)
  show "\<forall>y\<in>set tbl'. key y = key r \<longrightarrow> (\<exists>x\<in>set tbl. key x = key r \<and> y = r\<lparr>id_col := id_col x\<rparr>)"
    unfolding eq by auto
qed

lemma insert_row_present_key:
  "key r \<in> set (map key tbl) \<Longrightarrow> fst (insert_row r tbl) \<noteq> Committed \<and> snd (insert_row r tbl) = tbl"
  by (simp add: insert_row_def unique_ok_def)

lemma between_in_range:
  "v \<noteq> None \<Longrightarrow> check_passes (sql_between v lo hi) \<Longrightarrow> in_range v lo hi"
  by (auto simp add: check_passes_def sql_between_def sql_and_def sql_ge_def sql_le_def
      in_range_def split: option.splits if_splits)

lemma constraints_calendar: "not_null_ok r \<Longrightarrow> check_ok r \<Longrightarrow> calendar_in_range r"
  by (simp add: not_null_ok_def check_ok_def calendar_in_range_def between_in_range)

lemma calendar_id_col: "calendar_in_range (r\<lparr>id_col := i\<rparr>) = calendar_in_range r"
  by (simp add: calendar_in_range_def)

lemma calendar_assign_rowid: "calendar_in_range (assign_rowid tbl r) = calendar_in_range r"
  by (simp add: assign_rowid_def calendar_id_col split: option.splits)

lemma insert_row_calendar:
  "\<forall>x\<in>set tbl. calendar_in_range x \<Longrightarrow> \<forall>x\<in>set (snd (insert_row r tbl)). calendar_in_range x"
  using constraints_calendar [of r]
  by (auto simp add: insert_row_def calendar_assign_rowid)

lemma upsert_row_calendar:
  "\<forall>x\<in>set tbl. calendar_in_range x \<Longrightarrow> \<forall>x\<in>set (snd (upsert_row r tbl)). calendar_in_range x"
  using constraints_calendar [of r] insert_row_calendar [of tbl r]
  by (auto simp add: upsert_row_def calendar_id_col)

lemma retention_delete_calendar:
  "\<forall>x\<in>set tbl. calendar_in_range x \<Longrightarrow>
     \<forall>x\<in>set (retention_delete R now tbl). calendar_in_range x"
  by (simp add: retention_delete_def)

lemma reachable_calendar: "reachable tbl \<Longrightarrow> \<forall>x\<in>set tbl. calendar_in_range x"
proof (induction rule: reachable.induct)
  case reachable_empty
  show ?case by simp
next
  case (reachable_insert tbl r)
  then show ?case using insert_row_calendar by blast
next
  case (reachable_upsert tbl r)
  then show ?case using upsert_row_calendar by blast
next
  case (reachable_retention tbl R now)
  then show ?case using retention_delete_calendar by blast
qed

lemma insert_row_out_of_range:
  "\<not> calendar_in_range r \<Longrightarrow>
     (fst (insert_row r tbl) = Rejected NotNullViolation \<or>
      fst (insert_row r tbl) = Rejected CheckViolation) \<and> snd (insert_row r tbl) = tbl"
  using constraints_calendar [of r] by (auto simp add: insert_row_def)

lemma upsert_row_out_of_range:
  "\<not> calendar_in_range r \<Longrightarrow>
     (fst (upsert_row r tbl) = Rejected NotNullViolation \<or>
      fst (upsert_row r tbl) = Rejected CheckViolation) \<and> snd (upsert_row r tbl) = tbl"
  using constraints_calendar [of r] by (auto simp add: upsert_row_def)

lemma retention_delete_bound:
  "r \<in> set (retention_delete R now tbl) \<Longrightarrow> timestamp r = Some t \<Longrightarrow> now - R \<le> t"
  by (auto simp add: retention_delete_def sql_lt_def)

text \<open>The example rows satisfy the constraints of the declaration.\<close>

lemma example_row_ok: "not_null_ok example_row \<and> check_ok example_row"
  by (simp add: example_row_def null_row_def not_null_ok_def check_ok_def check_passes_def
      sql_between_def sql_and_def sql_ge_def sql_le_def)

lemma old_row_ok: "not_null_ok old_row \<and> check_ok old_row"
  by (simp add: old_row_def null_row_def not_null_ok_def check_ok_def check_passes_def
      sql_between_def sql_and_def sql_ge_def sql_le_def)

lemma example_keys:
  "key example_row = (Some 2, Some 1700000100) \<and> key old_row = (Some 2, Some 1600000200)"
  by (simp add: key_def example_row_def old_row_def null_row_def)

lemma insert_old_row: "insert_row old_row [] = (Committed, [old_row\<lparr>id_col := Some 1\<rparr>])"
proof -
  have "unique_ok old_row []" by (simp add: unique_ok_def)
  moreover have "assign_rowid [] old_row = old_row\<lparr>id_col := Some 1\<rparr>"
    by (simp add: assign_rowid_def next_rowid_def List.map_filter_simps old_row_def null_row_def)
  ultimately show ?thesis by (simp add: insert_row_def old_row_ok)
qed

lemma upsert_example_row:
  "upsert_row example_row [old_row\<lparr>id_col := Some 1\<rparr>] =
     (Committed, [old_row\<lparr>id_col := Some 1\<rparr>, example_row\<lparr>id_col := Some 2\<rparr>])"
proof -
  have k: "key example_row \<notin> set (map key [old_row\<lparr>id_col := Some 1\<rparr>])"
    by (simp add: key_id_col example_keys)
  have "unique_ok example_row [old_row\<lparr>id_col := Some 1\<rparr>]"
    using k by (simp add: unique_ok_def example_row_def null_row_def)
  moreover have "assign_rowid [old_row\<lparr>id_col := Some 1\<rparr>] example_row = example_row\<lparr>id_col := Some 2\<rparr>"
    by (simp add: assign_rowid_def next_rowid_def List.map_filter_simps example_row_def
        null_row_def)
  ultimately show ?thesis using k by (simp add: upsert_row_def insert_row_def example_row_ok)
qed

lemma upsert_old_row_again:
  "upsert_row (old_row\<lparr>wiki_price := Some 96\<rparr>) [old_row\<lparr>id_col := Some 1\<rparr>] =
     (Committed, [old_row\<lparr>wiki_price := Some 96, id_col := Some 1\<rparr>])"
proof -
  have "not_null_ok (old_row\<lparr>wiki_price := Some 96\<rparr>) \<and> check_ok (old_row\<lparr>wiki_price := Some 96\<rparr>)"
    using old_row_ok by (simp add: not_null_ok_def check_ok_def)
  moreover have "key (old_row\<lparr>wiki_price := Some 96\<rparr>) = key (old_row\<lparr>id_col := Some 1\<rparr>)"
    by (simp add: key_def)
  ultimately show ?thesis by (simp add: upsert_row_def)
qed

section \<open>The claims\<close>

subsection \<open>C1: combined interval price\<close>

text \<open>
  Claim C1 says that the combined interval price is the floored average of the buy and
  sell interval prices when both are present, otherwise whichever of the two is present,
  otherwise zero. The column \<^verbatim>\<open>avg5m_price\<close> takes the average only when both prices
  are greater than zero: with a buy price of 0 and a sell price of 100, both present, it
  is 0 where the claim gives 50.
\<close>

theorem avg5m_price_counterexample:
  "avg5m_price (null_row\<lparr>buy_price := Some 0, sell_price := Some 100\<rparr>) = Some 0 \<and>
   spec_combined_price (Some 0) (Some 100) = 50"
  by (simp add: avg5m_price_def sql_ops null_row_def spec_combined_price_def)

text \<open>
  Claim C1, amended: the combined interval price is the floored average of the buy and
  sell interval prices when both are present and greater than zero; otherwise it is the
  buy price when that is present, else the sell price when that is present, else zero. In
  particular, with a buy price and no sell price it is the buy price.
\<close>

theorem avg5m_price_cases:
  "avg5m_price r =
     (case buy_price r of
        Some b \<Rightarrow> (case sell_price r of
                     Some s \<Rightarrow> if 0 < b \<and> 0 < s then Some \<lfloor>(of_int b + of_int s) / (2 :: rat)\<rfloor>
                               else Some b
                   | None \<Rightarrow> Some b)
      | None \<Rightarrow> (case sell_price r of Some s \<Rightarrow> Some s | None \<Rightarrow> Some 0))"
proof -
  have "\<lfloor>(of_int b + of_int s) / (2 :: rat)\<rfloor> = (b + s) div 2" for b s :: int
    using floor_divide_of_int_eq [of "b + s" 2, where ?'a = rat] by simp
  then show ?thesis
    by (auto simp add: avg5m_price_def sql_ops split: option.splits)
qed

theorem avg5m_price_cases_witness:
  "avg5m_price (null_row\<lparr>buy_price := Some 90, sell_price := Some 111\<rparr>) = Some 100 \<and>
   avg5m_price (null_row\<lparr>buy_price := Some 90\<rparr>) = Some 90"
proof -
  have "\<lfloor>(201 :: rat) / 2\<rfloor> = 100"
    using floor_divide_of_int_eq [of 201 2, where ?'a = rat] by simp
  with avg5m_price_cases [of "null_row\<lparr>buy_price := Some 90, sell_price := Some 111\<rparr>"]
    avg5m_price_cases [of "null_row\<lparr>buy_price := Some 90\<rparr>"]
  show ?thesis by (simp add: null_row_def)
qed

subsection \<open>C2: relative price gaps\<close>

text \<open>
  Claim C2 says that the gaps are (sell - buy) / reference, (buy - reference) / reference
  and (reference - sell) / reference, each zero unless both operands and the reference are
  present and the reference is not zero. The column \<^verbatim>\<open>price_ratio_sell_buy\<close> is
  guarded by \<^verbatim>\<open>buy_price > 0 AND wiki_price > 0\<close>: with a reference price of 100, a
  buy price of 0 and a sell price of 110, all present, it is 0 where the claim gives 1.1.
\<close>

theorem price_ratio_counterexample:
  "price_ratio_sell_buy (null_row\<lparr>wiki_price := Some 100, buy_price := Some 0,
       sell_price := Some 110\<rparr>) = Some 0 \<and>
   spec_gap (Some 110) (Some 0) (Some 100) = 11 / 10"
  by (simp add: price_ratio_sell_buy_def sql_ops null_row_def spec_gap_def)

text \<open>
  Claim C2, amended: when the reference price and the buy price are present and greater
  than zero and the sell price is present, the first gap is (sell - buy) / reference; when
  the reference price is present and greater than zero and the buy price is present, the
  second gap is (buy - reference) / reference. The first gap is zero when the reference
  price or the buy price is absent or not greater than zero; the second and the third gap
  are zero when the reference price is absent or not greater than zero. In particular,
  reference price 100, buy 90 and sell 110 give a first gap of 0.20 and a second gap of
  -0.10. (The value of the third column under a positive reference price is not part of
  this statement.)
\<close>

theorem price_ratio_cases:
  "(wiki_price r = Some w \<and> 0 < w \<and> buy_price r = Some b \<and> 0 < b \<and> sell_price r = Some s
      \<longrightarrow> price_ratio_sell_buy r = Some ((of_int s - of_int b) / of_int w)) \<and>
   (wiki_price r = Some w \<and> 0 < w \<and> buy_price r = Some b
      \<longrightarrow> price_ratio_buy_wiki r = Some ((of_int b - of_int w) / of_int w)) \<and>
   (\<not> (\<exists>w b. wiki_price r = Some w \<and> 0 < w \<and> buy_price r = Some b \<and> 0 < b)
      \<longrightarrow> price_ratio_sell_buy r = Some 0) \<and>
   (\<not> (\<exists>w. wiki_price r = Some w \<and> 0 < w)
      \<longrightarrow> price_ratio_buy_wiki r = Some 0 \<and> price_ratio_sell_wiki r = Some 0) \<and>
   price_ratio_sell_buy example_row = Some (20 / 100) \<and>
   price_ratio_buy_wiki example_row = Some (- (10 / 100))"
proof -
  have "price_ratio_sell_buy example_row = Some (20 / 100)"
    by (simp add: price_ratio_sell_buy_def sql_ops example_row_def null_row_def)
  moreover have "price_ratio_buy_wiki example_row = Some (- (10 / 100))"
    by (simp add: price_ratio_buy_wiki_def sql_ops example_row_def null_row_def)
  ultimately show ?thesis
    by (auto simp add: price_ratio_sell_buy_def price_ratio_buy_wiki_def
        price_ratio_sell_wiki_def sql_ops split: option.splits)
qed

theorem price_ratio_cases_witness:
  "price_ratio_sell_buy (null_row\<lparr>wiki_price := Some 200, buy_price := Some 150,
       sell_price := Some 160\<rparr>) = Some (1 / 20) \<and>
   price_ratio_buy_wiki (null_row\<lparr>wiki_price := Some 200, buy_price := Some 150,
       sell_price := Some 160\<rparr>) = Some (- (1 / 4)) \<and>
   price_ratio_sell_buy null_row = Some 0 \<and> price_ratio_buy_wiki null_row = Some 0 \<and>
   price_ratio_sell_wiki null_row = Some 0"
  using price_ratio_cases [of "null_row\<lparr>wiki_price := Some 200, buy_price := Some 150,
       sell_price := Some 160\<rparr>" 200 150 160]
    price_ratio_cases [of null_row]
  by (simp add: null_row_def)

text \<open>
  For the record, the third column at the example of the claim: with reference price 100
  and sell price 110 the declaration's (sell - wiki) / wiki is 0.10.
\<close>

lemma price_ratio_sell_wiki_example: "price_ratio_sell_wiki example_row = Some (10 / 100)"
  by (simp add: price_ratio_sell_wiki_def sql_ops example_row_def null_row_def)

subsection \<open>C3: trade margin\<close>

text \<open>
  Claim C3 says that the trade margin is sell - buy - tax(sell) whenever both interval
  prices are present, and zero when either is absent. The column \<^verbatim>\<open>avg5m_margin\<close>
  computes the margin only when both prices are greater than zero: with a buy price of 0
  and a sell price of 100, both present, it is 0 where the claim gives 99.
\<close>

theorem avg5m_margin_counterexample:
  "avg5m_margin (null_row\<lparr>buy_price := Some 0, sell_price := Some 100\<rparr>) = Some 0 \<and>
   spec_trade_margin (Some 0) (Some 100) = 99"
  by (simp add: avg5m_margin_def sql_ops null_row_def spec_trade_margin_def spec_tax_div)

text \<open>
  Claim C3, amended: when both interval prices are present and greater than zero, and the
  sell price is below 500,000,100 (so that one hundredth of it does not exceed the cap),
  the trade margin is sell - buy - tax(sell) with tax(p) = min(5,000,000, floor(p * 0.01));
  when either price is absent or not greater than zero, the trade margin is zero.
\<close>

theorem avg5m_margin_cases:
  "(buy_price r = Some b \<and> sell_price r = Some s \<and> 0 < b \<and> 0 < s \<and> s < 500000100
      \<longrightarrow> avg5m_margin r = Some (s - b - spec_tax s)) \<and>
   (\<not> (\<exists>b s. buy_price r = Some b \<and> sell_price r = Some s \<and> 0 < b \<and> 0 < s)
      \<longrightarrow> avg5m_margin r = Some 0)"
  by (auto simp add: avg5m_margin_def sql_ops trunc_rat_nonneg uncapped_below
      split: option.splits)

theorem avg5m_margin_cases_witness:
  "avg5m_margin example_row = Some 19 \<and> spec_tax 110 = 1 \<and>
   avg5m_margin (null_row\<lparr>buy_price := Some 90\<rparr>) = Some 0"
  using avg5m_margin_cases [of example_row 90 110]
    avg5m_margin_cases [of "null_row\<lparr>buy_price := Some 90\<rparr>"]
  by (simp add: example_row_def null_row_def spec_tax_div)

text \<open>
  For the record, the column above the cap: the subtracted hundredth of the sell price is
  not limited to 5,000,000 as the \<^verbatim>\<open>tax\<close> column is.
\<close>

lemma avg5m_margin_above_cap:
  "avg5m_margin (null_row\<lparr>buy_price := Some 900000000, sell_price := Some 1000000000\<rparr>) =
     Some 90000000 \<and>
   spec_trade_margin (Some 900000000) (Some 1000000000) = 95000000"
  by (simp add: avg5m_margin_def sql_ops null_row_def trunc_rat_def spec_trade_margin_def
      spec_tax_div)

subsection \<open>C4: combined interval volume\<close>

text \<open>
  Claim C4 says that the combined interval volume is the sum of the buy and sell interval
  volumes with an absent volume counting as zero, so that it is defined whenever one side
  is present. The column \<^verbatim>\<open>avg5m_volume\<close> is \<^verbatim>\<open>buy_volume + sell_volume\<close>: with a buy
  volume of 7 and no sell volume it is NULL where the claim gives 7.
\<close>

theorem avg5m_volume_counterexample:
  "avg5m_volume (null_row\<lparr>buy_volume := Some 7\<rparr>) = None \<and>
   spec_combined_volume (Some 7) None = 7"
  by (simp add: avg5m_volume_def sql_add_def null_row_def spec_combined_volume_def)

text \<open>
  Claim C4, amended: the combined interval volume is the sum of the buy and sell interval
  volumes when both are present, and is absent (NULL) when either of them is absent.
\<close>

theorem avg5m_volume_cases:
  "avg5m_volume r =
     (case buy_volume r of
        Some b \<Rightarrow> (case sell_volume r of Some s \<Rightarrow> Some (b + s) | None \<Rightarrow> None)
      | None \<Rightarrow> None)"
  by (simp add: avg5m_volume_def sql_add_def split: option.splits)

theorem avg5m_volume_cases_witness:
  "avg5m_volume (null_row\<lparr>buy_volume := Some 3, sell_volume := Some 4\<rparr>) = Some 7"
  using avg5m_volume_cases [of "null_row\<lparr>buy_volume := Some 3, sell_volume := Some 4\<rparr>"]
  by (simp add: null_row_def)

subsection \<open>C5: the tax formula\<close>

text \<open>
  Claim C5: for every price that is not negative, the tax expression
  \<^verbatim>\<open>LEAST(5000000, CAST(p * 0.01 as INTEGER))\<close> is min(5,000,000, floor(p * 0.01)); in
  particular the tax of 500,000,000 is 5,000,000 and the tax of 1,000 is 10.
\<close>

theorem tax_formula:
  "(0 \<le> p \<longrightarrow> tax_expr (Some p) = Some (spec_tax p)) \<and>
   tax_expr (Some 500000000) = Some 5000000 \<and> tax_expr (Some 1000) = Some 10"
  by (simp add: tax_expr_nonneg spec_tax_div)

theorem tax_formula_witness:
  "tax_expr (Some 1234) = Some 12 \<and> spec_tax 1234 = 12 \<and>
   tax_expr (Some 500000100) = Some 5000000"
  using tax_formula [of 1234] tax_formula [of 500000100] by (simp add: spec_tax_div)

subsection \<open>C6: realtime spread margin\<close>

text \<open>
  Claim C6 says that with a tick count greater than zero the realtime spread margin is
  tick_max - tick_min - tax(tick_average), the tax being capped at 5,000,000. The column
  \<^verbatim>\<open>rt_margin\<close> subtracts \<^verbatim>\<open>CAST(rt_avg_price * 0.01 as INTEGER)\<close> without the cap
  that the \<^verbatim>\<open>tax\<close> column of the same table applies. With two ticks of 590,000,000 and
  610,000,000, average 600,000,000, the column is 14,000,000 and the claimed margin is
  15,000,000.
\<close>

theorem rt_margin_cap_missing:
  "rt_margin (null_row\<lparr>rt_avg_price := Some 600000000, rt_min_price := Some 590000000,
       rt_max_price := Some 610000000, rt_count := Some 2\<rparr>) = Some 14000000 \<and>
   spec_rt_margin (Some 2) 610000000 590000000 600000000 = 15000000"
  by (simp add: rt_margin_def sql_ops null_row_def trunc_rat_def spec_rt_margin_def
      spec_tax_div)

subsection \<open>C7: one row per item and anchor\<close>

text \<open>
  Claim C7: in every reachable state of the derived table there is at most one row per
  \<open>(item_id, timestamp)\<close>, and insert, upsert, retention deletion and a whole update
  cycle preserve this. An upsert of a row whose pair is already present leaves the pairs
  of the table as they were, and the row under that pair then holds the written row (with
  the id of the row it overwrote); a plain insert of such a row fails and leaves the table
  unchanged.
\<close>

theorem unique_item_anchor:
  "(reachable tbl \<longrightarrow> distinct (map key tbl)) \<and>
   (distinct (map key tbl) \<longrightarrow>
      distinct (map key (snd (insert_row r tbl))) \<and>
      distinct (map key (snd (upsert_row r tbl))) \<and>
      distinct (map key (retention_delete R now tbl))) \<and>
   (distinct (map key (derived st)) \<longrightarrow>
      distinct (map key (derived (snd (update_cycle cfg now new st))))) \<and>
   (key r \<in> set (map key tbl) \<and> upsert_row r tbl = (Committed, tbl') \<longrightarrow>
      map key tbl' = map key tbl \<and>
      (\<forall>y\<in>set tbl'. key y = key r \<longrightarrow>
         (\<exists>x\<in>set tbl. key x = key r \<and> y = r\<lparr>id_col := id_col x\<rparr>))) \<and>
   (key r \<in> set (map key tbl) \<longrightarrow>
      fst (insert_row r tbl) \<noteq> Committed \<and> snd (insert_row r tbl) = tbl)"
proof (intro conjI impI)
  assume "reachable tbl"
  then show "distinct (map key tbl)" by (rule reachable_distinct)
next
  assume "distinct (map key tbl)"
  then show "distinct (map key (snd (insert_row r tbl)))" by (rule insert_row_distinct)
next
  assume "distinct (map key tbl)"
  then show "distinct (map key (snd (upsert_row r tbl)))" by (rule upsert_row_distinct)
next
  assume "distinct (map key tbl)"
  then show "distinct (map key (retention_delete R now tbl))"
    by (rule retention_delete_distinct)
next
  assume "distinct (map key (derived st))"
  then show "distinct (map key (derived (snd (update_cycle cfg now new st))))"
    by (rule update_cycle_distinct)
next
  assume a: "key r \<in> set (map key tbl) \<and> upsert_row r tbl = (Committed, tbl')"
  then show "map key tbl' = map key tbl"
    using upsert_row_overwrites(1) by blast
  from a show "\<forall>y\<in>set tbl'. key y = key r \<longrightarrow>
      (\<exists>x\<in>set tbl. key x = key r \<and> y = r\<lparr>id_col := id_col x\<rparr>)"
    using upsert_row_overwrites(2) by blast
next
  assume "key r \<in> set (map key tbl)"
  then show "fst (insert_row r tbl) \<noteq> Committed" using insert_row_present_key by blast
next
  assume "key r \<in> set (map key tbl)"
  then show "snd (insert_row r tbl) = tbl" using insert_row_present_key by blast
qed

theorem unique_item_anchor_witness:
  "reachable [old_row\<lparr>id_col := Some 1\<rparr>] \<and>
   distinct (map key [old_row\<lparr>id_col := Some 1\<rparr>]) \<and>
   upsert_row (old_row\<lparr>wiki_price := Some 96\<rparr>) [old_row\<lparr>id_col := Some 1\<rparr>] =
     (Committed, [old_row\<lparr>wiki_price := Some 96, id_col := Some 1\<rparr>]) \<and>
   map key [old_row\<lparr>wiki_price := Some 96, id_col := Some 1\<rparr>] =
     map key [old_row\<lparr>id_col := Some 1\<rparr>] \<and>
   snd (insert_row (old_row\<lparr>wiki_price := Some 96\<rparr>) [old_row\<lparr>id_col := Some 1\<rparr>]) =
     [old_row\<lparr>id_col := Some 1\<rparr>]"
proof -
  have re: "reachable [old_row\<lparr>id_col := Some 1\<rparr>]"
    using reachable_insert [OF reachable_empty, of old_row] by (simp add: insert_old_row)
  have k: "key (old_row\<lparr>wiki_price := Some 96\<rparr>) \<in> set (map key [old_row\<lparr>id_col := Some 1\<rparr>])"
    by (simp add: key_def)
  note inst = unique_item_anchor [where tbl = "[old_row\<lparr>id_col := Some 1\<rparr>]"
      and r = "old_row\<lparr>wiki_price := Some 96\<rparr>"
      and tbl' = "[old_row\<lparr>wiki_price := Some 96, id_col := Some 1\<rparr>]"]
  from inst re have "distinct (map key [old_row\<lparr>id_col := Some 1\<rparr>])" by blast
  moreover from inst k upsert_old_row_again
  have "map key [old_row\<lparr>wiki_price := Some 96, id_col := Some 1\<rparr>] =
      map key [old_row\<lparr>id_col := Some 1\<rparr>]" by blast
  moreover from inst k
  have "snd (insert_row (old_row\<lparr>wiki_price := Some 96\<rparr>) [old_row\<lparr>id_col := Some 1\<rparr>]) =
      [old_row\<lparr>id_col := Some 1\<rparr>]" by blast
  ultimately show ?thesis using re upsert_old_row_again by simp
qed

subsection \<open>C8: retention\<close>

text \<open>
  Claim C8: after a successful update cycle at time \<open>now\<close>, whatever the store was before
  it (so after any number of earlier cycles), no derived row has an anchor older than
  now - R, where R is the retention window of the configuration, 456 days in the
  reference configuration.
\<close>

theorem retention_after_cycle:
  "update_cycle cfg now new st = (Committed, st') \<Longrightarrow>
     \<forall>r\<in>set (derived st'). \<forall>t. timestamp r = Some t \<longrightarrow> now - retention_window cfg \<le> t"
  by (auto simp add: update_cycle_def split: prod.splits outcome.splits
      dest: retention_delete_bound)

theorem retention_after_cycle_witness:
  "update_cycle reference_config 1700000400 [example_row]
       \<lparr> derived = [old_row\<lparr>id_col := Some 1\<rparr>], checkpoint = 1600000200 \<rparr> =
     (Committed, \<lparr> derived = [example_row\<lparr>id_col := Some 2\<rparr>], checkpoint = 1700000400 \<rparr>) \<and>
   retention_window reference_config = 39398400 \<and>
   timestamp (example_row\<lparr>id_col := Some 2\<rparr>) = Some 1700000100 \<and>
   (1700000400 :: int) - retention_window reference_config \<le> 1700000100"
proof -
  have del: "retention_delete 39398400 1700000400
      [old_row\<lparr>id_col := Some 1\<rparr>, example_row\<lparr>id_col := Some 2\<rparr>] =
      [example_row\<lparr>id_col := Some 2\<rparr>]"
    by (simp add: retention_delete_def sql_lt_def example_row_def old_row_def null_row_def)
  have cyc: "update_cycle reference_config 1700000400 [example_row]
       \<lparr> derived = [old_row\<lparr>id_col := Some 1\<rparr>], checkpoint = 1600000200 \<rparr> =
     (Committed, \<lparr> derived = [example_row\<lparr>id_col := Some 2\<rparr>], checkpoint = 1700000400 \<rparr>)"
    by (simp add: update_cycle_def upsert_example_row reference_config_def del)
  have ts: "timestamp (example_row\<lparr>id_col := Some 2\<rparr>) = Some 1700000100"
    by (simp add: example_row_def null_row_def)
  from retention_after_cycle [OF cyc] ts
  have "(1700000400 :: int) - retention_window reference_config \<le> 1700000100"
    by simp
  with cyc ts show ?thesis
    by (simp add: reference_config_def)
qed

subsection \<open>C9: the price behind the tax column\<close>

text \<open>
  Claim C9: the \<^verbatim>\<open>tax\<close> column of a row is computed from the sell interval price when
  that is not NULL, otherwise from the snapshot (wiki) price when that is not NULL,
  otherwise from zero: tax = min(5,000,000, floor(0.01 * coalesce(sell_price, wiki_price,
  0))). The first conjunct names the price the column is computed from, for every row; the
  others give the value for a price that is not negative, where the truncating cast is the
  floor.
\<close>

theorem tax_column_source:
  "tax r = tax_expr (Some (case sell_price r of Some s \<Rightarrow> s
                          | None \<Rightarrow> (case wiki_price r of Some w \<Rightarrow> w | None \<Rightarrow> 0))) \<and>
   (sell_price r = Some s \<and> 0 \<le> s \<longrightarrow> tax r = Some (spec_tax s)) \<and>
   (sell_price r = None \<and> wiki_price r = Some w \<and> 0 \<le> w \<longrightarrow> tax r = Some (spec_tax w)) \<and>
   (sell_price r = None \<and> wiki_price r = None \<longrightarrow> tax r = Some (spec_tax 0))"
  by (auto simp add: tax_def tax_expr_nonneg split: option.splits)

theorem tax_column_source_witness:
  "tax example_row = Some 1 \<and> tax old_row = Some 0 \<and> tax null_row = Some 0 \<and>
   tax (null_row\<lparr>wiki_price := Some 100, sell_price := Some 700000000\<rparr>) = Some 5000000"
  using tax_column_source [of example_row 110, THEN conjunct2]
    tax_column_source [of old_row _ 95, THEN conjunct2]
    tax_column_source [of null_row, THEN conjunct2]
    tax_column_source [of "null_row\<lparr>wiki_price := Some 100, sell_price := Some 700000000\<rparr>"
      700000000, THEN conjunct2]
  by (simp add: example_row_def old_row_def null_row_def spec_tax_div)

subsection \<open>C10: calendar ranges\<close>

text \<open>
  Claim C10: every row of a reachable derived table has its minute in [0,59], hour in
  [0,23], day in [1,31], month in [1,12] and weekday in [0,6]; an insert (and likewise an
  upsert) of a row that violates one of these ranges fails and leaves the table unchanged.
\<close>

theorem calendar_ranges:
  "(reachable tbl \<longrightarrow> (\<forall>x\<in>set tbl. calendar_in_range x)) \<and>
   (\<not> calendar_in_range r \<longrightarrow>
      (\<exists>e. fst (insert_row r tbl) = Rejected e) \<and> snd (insert_row r tbl) = tbl) \<and>
   (\<not> calendar_in_range r \<longrightarrow>
      (\<exists>e. fst (upsert_row r tbl) = Rejected e) \<and> snd (upsert_row r tbl) = tbl)"
  using reachable_calendar [of tbl] insert_row_out_of_range [of r tbl]
    upsert_row_out_of_range [of r tbl]
  by blast

theorem calendar_ranges_witness:
  "reachable [old_row\<lparr>id_col := Some 1\<rparr>] \<and> calendar_in_range (old_row\<lparr>id_col := Some 1\<rparr>) \<and>
   \<not> calendar_in_range (example_row\<lparr>minute := Some 60\<rparr>) \<and>
   insert_row (example_row\<lparr>minute := Some 60\<rparr>) [old_row\<lparr>id_col := Some 1\<rparr>] =
     (Rejected CheckViolation, [old_row\<lparr>id_col := Some 1\<rparr>])"
proof -
  have re: "reachable [old_row\<lparr>id_col := Some 1\<rparr>]"
    using reachable_insert [OF reachable_empty, of old_row] by (simp add: insert_old_row)
  have bad: "\<not> calendar_in_range (example_row\<lparr>minute := Some 60\<rparr>)"
    by (simp add: calendar_in_range_def in_range_def)
  have nn: "not_null_ok (example_row\<lparr>minute := Some 60\<rparr>)"
    using example_row_ok by (simp add: not_null_ok_def)
  have nc: "\<not> check_ok (example_row\<lparr>minute := Some 60\<rparr>)"
    by (simp add: check_ok_def check_passes_def sql_between_def sql_and_def sql_ge_def
        sql_le_def)
  note inst = calendar_ranges [of "[old_row\<lparr>id_col := Some 1\<rparr>]" "example_row\<lparr>minute := Some 60\<rparr>"]
  from inst re have "calendar_in_range (old_row\<lparr>id_col := Some 1\<rparr>)" by simp
  moreover from inst bad
  have "(\<exists>e. fst (insert_row (example_row\<lparr>minute := Some 60\<rparr>) [old_row\<lparr>id_col := Some 1\<rparr>]) =
      Rejected e) \<and>
    snd (insert_row (example_row\<lparr>minute := Some 60\<rparr>) [old_row\<lparr>id_col := Some 1\<rparr>]) =
      [old_row\<lparr>id_col := Some 1\<rparr>]" by blast
  then have "insert_row (example_row\<lparr>minute := Some 60\<rparr>) [old_row\<lparr>id_col := Some 1\<rparr>] =
     (Rejected CheckViolation, [old_row\<lparr>id_col := Some 1\<rparr>])"
    using nn nc by (simp add: insert_row_def)
  ultimately show ?thesis using re bad by simp
qed


end
